theory Spec2Isabelle
  imports Complex_Main
begin

section \<open>Data model\<close>

text \<open>
  A calendar date is its day number (Python's \<open>date.toordinal()\<close>), so
  \<open>d - timedelta(days=k)\<close> is \<open>d - k\<close>. A datetime is the calendar day and the
  second of that day in the server's zone, with the zone name when the value is aware.
\<close>

type_synonym date = int

record datetime =
  dt_date :: date
  dt_secs :: nat
  dt_tzinfo :: "string option"

definition TIME_ZONE :: string where
  "TIME_ZONE = ''Asia/Taipei''"

text \<open>\<open>timezone.make_aware\<close>: attaches the configured zone to a naive value.\<close>

definition make_aware :: "datetime \<Rightarrow> datetime" where
  "make_aware t = t\<lparr>dt_tzinfo := Some TIME_ZONE\<rparr>"

text \<open>\<open>users/models.py\<close>: the fields of \<open>User\<close> the routers read.\<close>

record user =
  u_id :: int
  username :: string
  email :: string
  first_name :: string
  last_name :: string
  date_joined :: datetime

record user_setting =
  us_user :: int
  work_duration :: int
  short_break_duration :: int
  long_break_duration :: int
  long_break_interval :: int
  notifications_enabled :: bool

text \<open>\<open>tasks/models.py\<close>. A foreign key is the id of the row it points to.\<close>

record category =
  c_id :: int
  c_name :: string
  c_color_code :: string
  c_user :: int

record tag =
  g_id :: int
  g_name :: string
  g_color_code :: string
  g_user :: int

record task =
  t_id :: int
  title :: string
  description :: "string option"
  status :: string
  priority :: string
  due_date :: "date option"
  estimated_pomodoros :: int
  completed_pomodoros :: int
  created_at :: datetime
  updated_at :: datetime
  t_user :: int
  t_category :: "int option"
  t_tags :: "int list"

text \<open>\<open>pomodoro/models.py\<close>.\<close>

record session =
  s_id :: int
  s_user :: int
  s_task :: "int option"
  start_time :: datetime
  end_time :: "datetime option"
  duration :: int
  s_type :: string
  is_completed :: bool

text \<open>
  The relational store: one list of rows per table, in insertion order, and the next
  value of each auto-increment key.
\<close>

record db =
  users :: "user list"
  user_settings :: "user_setting list"
  categories :: "category list"
  tags :: "tag list"
  tasks :: "task list"
  sessions :: "session list"
  next_id :: int

text \<open>
  What a handler answers: the body of a 200 response, or the status of an error
  response (the \<open>detail\<close> message is left out). \<open>Pair401\<close> is the value
  \<open>({"detail": ...}, 401)\<close> that the handlers of \<open>routers/tasks.py\<close> return.
\<close>

datatype 'a response =
    Ok 'a
  | Unauthorized
  | Pair401
  | NotFound
  | ServerError

section \<open>Tokens\<close>

text \<open>
  \<open>jwt.decode(token, JWT_SECRET, algorithms=["HS256"])\<close> is the PyJWT library's; it is a
  parameter of the model. It either raises \<open>PyJWTError\<close> (a malformed, wrongly signed or
  expired token) or returns the payload, of which the routers read
  \<open>payload.get("user_id")\<close>.
\<close>

datatype jwt_result = PyJWTError | Payload "int option"

type_synonym jwt_decode = "string \<Rightarrow> jwt_result"

definition startswith :: "string \<Rightarrow> string \<Rightarrow> bool" where
  "startswith s p = (take (length p) s = p)"

text \<open>\<open>s.replace(old, "")\<close>: every occurrence of \<open>old\<close>, left to right, is removed.\<close>

function str_remove :: "string \<Rightarrow> string \<Rightarrow> string" where
  "str_remove old s =
     (if s = [] \<or> old = [] then s
      else if startswith s old then str_remove old (drop (length old) s)
      else hd s # str_remove old (tl s))"
  by pat_completeness auto
termination
  by (relation "measure (\<lambda>(old, s). length s)") auto

declare str_remove.simps [simp del]

definition get_user_id_from_token :: "jwt_decode \<Rightarrow> string option \<Rightarrow> int option" where
  "get_user_id_from_token dec authorization =
     (case authorization of
        None \<Rightarrow> None
      | Some a \<Rightarrow>
          if a \<noteq> [] \<and> startswith a ''Bearer '' then
            (case dec (str_remove ''Bearer '' a) of
               PyJWTError \<Rightarrow> None
             | Payload uid \<Rightarrow> uid)
          else None)"

text \<open>Python's \<open>if not user_id\<close>: true for \<open>None\<close> and for \<open>0\<close>.\<close>

definition falsy :: "int option \<Rightarrow> bool" where
  "falsy v = (case v of None \<Rightarrow> True | Some n \<Rightarrow> n = 0)"

section \<open>Queries\<close>

text \<open>
  \<open>Model.objects.get(...)\<close> on conditions \<open>P\<close>: the matching row, or
  \<open>DoesNotExist\<close> (\<open>None\<close>). \<open>get_object_or_404\<close> raises \<open>Http404\<close> instead.
\<close>

definition get_object :: "('a \<Rightarrow> bool) \<Rightarrow> 'a list \<Rightarrow> 'a option" where
  "get_object P rows = find P rows"

text \<open>
  \<open>obj.save()\<close> of a loaded row writes every field to the row of its key. The
  \<open>PositiveIntegerField\<close> columns refuse a negative value: the statement fails and
  \<open>save\<close> raises (\<open>None\<close>). \<open>updated_at\<close> is \<open>auto_now\<close>.
\<close>

definition save_session :: "session \<Rightarrow> db \<Rightarrow> db option" where
  "save_session s d =
     (if duration s < 0 then None
      else Some (d\<lparr>sessions := map (\<lambda>r. if s_id r = s_id s then s else r) (sessions d)\<rparr>))"

definition save_task :: "datetime \<Rightarrow> task \<Rightarrow> db \<Rightarrow> db option" where
  "save_task now t d =
     (if estimated_pomodoros t < 0 \<or> completed_pomodoros t < 0 then None
      else Some (d\<lparr>tasks := map (\<lambda>r. if t_id r = t_id t then t\<lparr>updated_at := now\<rparr> else r)
                                  (tasks d)\<rparr>))"

section \<open>Pomodoro sessions (routers/pomodoro.py)\<close>

record PomodoroSessionSchema =
  ps_id :: int
  ps_user_id :: int
  ps_task_id :: "int option"
  ps_task_title :: "string option"
  ps_start_time :: datetime
  ps_end_time :: "datetime option"
  ps_duration :: int
  ps_type :: string
  ps_is_completed :: bool

record SessionCreateSchema =
  sc_task_id :: "int option"
  sc_type :: string
  sc_duration :: int

record SessionUpdateSchema =
  su_end_time :: datetime
  su_is_completed :: bool

text \<open>
  \<open>session.task\<close>: \<open>None\<close> when the key is null, else the task row of that key;
  \<open>Inl ()\<close> when that row is missing and the access raises.
\<close>

definition session_task :: "db \<Rightarrow> session \<Rightarrow> unit + task option" where
  "session_task d s =
     (case s_task s of
        None \<Rightarrow> Inr None
      | Some tid \<Rightarrow>
          (case get_object (\<lambda>t. t_id t = tid) (tasks d) of
             None \<Rightarrow> Inl ()
           | Some t \<Rightarrow> Inr (Some t)))"

text \<open>
  The answer for a session, given its task; \<open>session.user.id\<close> is the user key of
  the row.
\<close>

definition session_schema :: "session \<Rightarrow> task option \<Rightarrow> PomodoroSessionSchema" where
  "session_schema s t =
     \<lparr>ps_id = s_id s, ps_user_id = s_user s,
      ps_task_id = map_option t_id t, ps_task_title = map_option title t,
      ps_start_time = start_time s, ps_end_time = end_time s,
      ps_duration = duration s, ps_type = s_type s,
      ps_is_completed = is_completed s\<rparr>"

text \<open>
  \<open>start_session\<close>. Every exception inside the \<open>try\<close> block, the \<open>Http404\<close> of
  \<open>get_object_or_404\<close> included, is neither \<open>User.DoesNotExist\<close> nor
  \<open>Task.DoesNotExist\<close> and reaches \<open>except Exception\<close>, which answers 500.
\<close>

definition start_session ::
  "jwt_decode \<Rightarrow> datetime \<Rightarrow> db \<Rightarrow> SessionCreateSchema \<Rightarrow> string option
     \<Rightarrow> PomodoroSessionSchema response \<times> db" where
  "start_session dec now d data authorization =
     (let user_id = get_user_id_from_token dec authorization in
      if falsy user_id then (Unauthorized, d)
      else
        (case get_object (\<lambda>u. Some (u_id u) = user_id) (users d) of
           None \<Rightarrow> (ServerError, d)
         | Some usr \<Rightarrow>
             (case (if falsy (sc_task_id data) then Inr None
                    else (case get_object (\<lambda>t. Some (t_id t) = sc_task_id data \<and> t_user t = u_id usr)
                                 (tasks d) of
                            None \<Rightarrow> Inl ()
                          | Some t \<Rightarrow> Inr (Some t))) of
                Inl _ \<Rightarrow> (ServerError, d)
              | Inr tsk \<Rightarrow>
                  if sc_duration data < 0 then (ServerError, d)
                  else
                    (let s = \<lparr>s_id = next_id d, s_user = u_id usr, s_task = map_option t_id tsk,
                              start_time = now, end_time = None, duration = sc_duration data,
                              s_type = sc_type data, is_completed = False\<rparr>
                     in (Ok (session_schema s tsk),
                         d\<lparr>sessions := sessions d @ [s], next_id := next_id d + 1\<rparr>)))))"

text \<open>
  \<open>complete_session\<close>. The session is saved before the counter is touched, and nothing
  is rolled back when a later statement raises.
\<close>

definition complete_session ::
  "jwt_decode \<Rightarrow> datetime \<Rightarrow> db \<Rightarrow> int \<Rightarrow> SessionUpdateSchema \<Rightarrow> string option
     \<Rightarrow> PomodoroSessionSchema response \<times> db" where
  "complete_session dec now d session_id data authorization =
     (let user_id = get_user_id_from_token dec authorization in
      if falsy user_id then (Unauthorized, d)
      else
        (case get_object (\<lambda>s. s_id s = session_id \<and> Some (s_user s) = user_id) (sessions d) of
           None \<Rightarrow> (ServerError, d)
         | Some session0 \<Rightarrow>
             (let end_time' = (if dt_tzinfo (su_end_time data) = None
                               then make_aware (su_end_time data) else su_end_time data);
                  s = session0\<lparr>end_time := Some end_time', is_completed := su_is_completed data\<rparr>
              in case save_session s d of
                   None \<Rightarrow> (ServerError, d)
                 | Some d1 \<Rightarrow>
                     if is_completed s \<and> s_type s = ''work'' then
                       (case session_task d1 s of
                          Inl _ \<Rightarrow> (ServerError, d1)
                        | Inr None \<Rightarrow> (Ok (session_schema s None), d1)
                        | Inr (Some t) \<Rightarrow>
                            (let t' = t\<lparr>completed_pomodoros := completed_pomodoros t + 1\<rparr>
                             in case save_task now t' d1 of
                                  None \<Rightarrow> (ServerError, d1)
                                | Some d2 \<Rightarrow> (Ok (session_schema s (Some t')), d2)))
                     else
                       (case session_task d1 s of
                          Inl _ \<Rightarrow> (ServerError, d1)
                        | Inr t \<Rightarrow> (Ok (session_schema s t), d1)))))"

text \<open>\<open>delete_session\<close>. Deleting the row removes it from the table.\<close>

definition delete_row_session :: "session \<Rightarrow> db \<Rightarrow> db" where
  "delete_row_session s d = d\<lparr>sessions := filter (\<lambda>r. s_id r \<noteq> s_id s) (sessions d)\<rparr>"

definition delete_session ::
  "jwt_decode \<Rightarrow> datetime \<Rightarrow> db \<Rightarrow> int \<Rightarrow> string option \<Rightarrow> unit response \<times> db" where
  "delete_session dec now d session_id authorization =
     (let user_id = get_user_id_from_token dec authorization in
      if falsy user_id then (Unauthorized, d)
      else
        (case get_object (\<lambda>s. s_id s = session_id \<and> Some (s_user s) = user_id) (sessions d) of
           None \<Rightarrow> (ServerError, d)
         | Some s \<Rightarrow>
             if is_completed s \<and> s_type s = ''work'' then
               (case session_task d s of
                  Inl _ \<Rightarrow> (ServerError, d)
                | Inr None \<Rightarrow> (Ok (), delete_row_session s d)
                | Inr (Some t) \<Rightarrow>
                    if completed_pomodoros t > 0 then
                      (case save_task now (t\<lparr>completed_pomodoros := completed_pomodoros t - 1\<rparr>) d of
                         None \<Rightarrow> (ServerError, d)
                       | Some d1 \<Rightarrow> (Ok (), delete_row_session s d1))
                    else (Ok (), delete_row_session s d))
             else (Ok (), delete_row_session s d)))"

section \<open>Ordering and grouping of query results\<close>

text \<open>Datetimes compare by calendar day, then by second of the day.\<close>

definition dt_less :: "datetime \<Rightarrow> datetime \<Rightarrow> bool" where
  "dt_less a b = (dt_date a < dt_date b \<or> (dt_date a = dt_date b \<and> dt_secs a < dt_secs b))"

text \<open>\<open>t - timedelta(days=k)\<close> on a datetime.\<close>

definition minus_days :: "datetime \<Rightarrow> int \<Rightarrow> datetime" where
  "minus_days t k = t\<lparr>dt_date := dt_date t - k\<rparr>"

text \<open>
  Strings are ordered as the database orders the column: character by character. For the
  lower-case ASCII words the choice fields hold, this is the order of the character codes.
\<close>

fun str_less :: "string \<Rightarrow> string \<Rightarrow> bool" where
  "str_less [] [] = False"
| "str_less [] (y # ys) = True"
| "str_less (x # xs) [] = False"
| "str_less (x # xs) (y # ys) =
     ((of_char x :: nat) < of_char y \<or> (x = y \<and> str_less xs ys))"

text \<open>
  \<open>order_by\<close>: a stable insertion sort under the comparison \<open>lt\<close>; rows that compare
  equal keep their table order (SQL leaves their order open).
\<close>

fun insort_by :: "('a \<Rightarrow> 'a \<Rightarrow> bool) \<Rightarrow> 'a \<Rightarrow> 'a list \<Rightarrow> 'a list" where
  "insort_by lt x [] = [x]"
| "insort_by lt x (y # ys) = (if lt y x then y # insort_by lt x ys else x # y # ys)"

definition order_by :: "('a \<Rightarrow> 'a \<Rightarrow> bool) \<Rightarrow> 'a list \<Rightarrow> 'a list" where
  "order_by lt xs = foldr (insort_by lt) xs []"

text \<open>
  \<open>.values(k).annotate(count=Count("id"))\<close>: one pair per distinct key, with the number
  of rows that have it.
\<close>

definition annotate_count :: "'k list \<Rightarrow> ('k \<times> int) list" where
  "annotate_count ks = map (\<lambda>k. (k, int (count_list ks k))) (remdups ks)"

text \<open>\<open>aggregate(total=Sum("duration"))["total"] or 0\<close>.\<close>

definition sum_duration :: "session list \<Rightarrow> int" where
  "sum_duration ss = sum_list (map duration ss)"

text \<open>
  \<open>round(x, n)\<close> of a quotient: to \<open>n\<close> decimals, a tie going to the even digit. The
  quotient is taken exactly, where Python rounds the double nearest to it.
\<close>

definition round_half_even :: "rat \<Rightarrow> int" where
  "round_half_even q =
     (let f = \<lfloor>q\<rfloor>; r = q - of_int f
      in if r < 1 / 2 then f else if 1 / 2 < r then f + 1 else if even f then f else f + 1)"

definition py_round :: "rat \<Rightarrow> nat \<Rightarrow> rat" where
  "py_round q n = of_int (round_half_even (q * 10 ^ n)) / 10 ^ n"

text \<open>
  The loop \<open>while current_date <= end_date: ...; current_date += timedelta(days=1)\<close>,
  collecting what the body appends for each day.
\<close>

function date_loop :: "date \<Rightarrow> date \<Rightarrow> (date \<Rightarrow> 'a list) \<Rightarrow> 'a list" where
  "date_loop current_date end_date body =
     (if current_date \<le> end_date
      then body current_date @ date_loop (current_date + 1) end_date body
      else [])"
  by pat_completeness auto
termination
  by (relation "measure (\<lambda>(c, e, b). nat (e + 1 - c))") auto

declare date_loop.simps [simp del]

section \<open>Analytics (routers/analytics.py)\<close>

text \<open>
  In \<open>TimeSeriesDataPoint\<close> the day is kept as a date: \<open>strftime("%Y-%m-%d")\<close> renders
  different days differently.
\<close>

record TimeSeriesDataPoint =
  tp_date :: date
  tp_value :: int

record CategoryDataPoint =
  cd_category_id :: "int option"
  cd_category_name :: string
  cd_value :: int
  cd_color :: string

record PriorityDataPoint =
  pd_priority :: string
  pd_value :: int

record ProductivityStats =
  total_pomodoros :: int
  completed_tasks :: int
  focus_hours :: rat
  completion_rate :: rat
  daily_average :: rat
  streak :: int

record DailyStats =
  ds_date :: date
  ds_pomodoros :: int
  ds_tasks_completed :: int
  ds_focus_minutes :: int

record AnalyticsResponse =
  pomodoro_time_series :: "TimeSeriesDataPoint list"
  task_completion_time_series :: "TimeSeriesDataPoint list"
  category_distribution :: "CategoryDataPoint list"
  priority_distribution :: "PriorityDataPoint list"
  productivity_stats :: ProductivityStats
  daily_stats :: "DailyStats list"

record TimeRangeSchema =
  tr_start_date :: date
  tr_end_date :: date

text \<open>The name of the bucket of tasks without a category, in UTF-8.\<close>

definition UNCATEGORIZED :: string where
  "UNCATEGORIZED = map char_of [230, 156, 170, 229, 136, 134, 233, 161, 158 :: nat]"

text \<open>The two querysets of the window.\<close>

definition pomodoro_sessions :: "db \<Rightarrow> int \<Rightarrow> date \<Rightarrow> date \<Rightarrow> session list" where
  "pomodoro_sessions d uid start_date end_date =
     filter (\<lambda>s. s_user s = uid \<and> start_date \<le> dt_date (start_time s)
                 \<and> dt_date (start_time s) \<le> end_date \<and> is_completed s) (sessions d)"

definition window_tasks :: "db \<Rightarrow> int \<Rightarrow> date \<Rightarrow> date \<Rightarrow> task list" where
  "window_tasks d uid start_date end_date =
     filter (\<lambda>t. t_user t = uid \<and> start_date \<le> dt_date (created_at t)
                 \<and> dt_date (created_at t) \<le> end_date) (tasks d)"

definition is_work :: "session \<Rightarrow> bool" where
  "is_work s = (s_type s = ''work'')"

definition is_done :: "task \<Rightarrow> bool" where
  "is_done t = (status t = ''completed'')"

text \<open>\<open>next((item["count"] for item in series if item["day"] == day), 0)\<close>.\<close>

definition count_on :: "(date \<times> int) list \<Rightarrow> date \<Rightarrow> int" where
  "count_on series day = (case find (\<lambda>item. fst item = day) series of
                            None \<Rightarrow> 0 | Some item \<Rightarrow> snd item)"

text \<open>The category rows of the distribution; a key without its row raises.\<close>

fun category_points :: "db \<Rightarrow> (int option \<times> int) list \<Rightarrow> unit + CategoryDataPoint list" where
  "category_points d [] = Inr []"
| "category_points d (item # items) =
     (case (if falsy (fst item)
            then Inr \<lparr>cd_category_id = fst item, cd_category_name = UNCATEGORIZED,
                      cd_value = snd item, cd_color = ''#94a3b8''\<rparr>
            else (case get_object (\<lambda>c. Some (c_id c) = fst item) (categories d) of
                    None \<Rightarrow> Inl ()
                  | Some c \<Rightarrow> Inr \<lparr>cd_category_id = fst item, cd_category_name = c_name c,
                                    cd_value = snd item, cd_color = c_color_code c\<rparr>)) of
        Inl e \<Rightarrow> Inl e
      | Inr p \<Rightarrow> (case category_points d items of Inl e \<Rightarrow> Inl e | Inr ps \<Rightarrow> Inr (p # ps)))"

text \<open>
  The streak loop: \<open>while date_check >= start_date\<close>, one more day for each day that
  has a completed work session of the user, \<open>break\<close> at the first day without one.
\<close>

definition has_sessions :: "db \<Rightarrow> int \<Rightarrow> date \<Rightarrow> bool" where
  "has_sessions d uid date_check =
     (filter (\<lambda>s. s_user s = uid \<and> dt_date (start_time s) = date_check
                   \<and> s_type s = ''work'' \<and> is_completed s) (sessions d) \<noteq> [])"

function streak_loop :: "db \<Rightarrow> int \<Rightarrow> date \<Rightarrow> date \<Rightarrow> int \<Rightarrow> int" where
  "streak_loop d uid start_date date_check n =
     (if date_check \<ge> start_date then
        (if has_sessions d uid date_check
         then streak_loop d uid start_date (date_check - 1) (n + 1)
         else n)
      else n)"
  by pat_completeness auto
termination
  by (relation "measure (\<lambda>(d, uid, start_date, date_check, n). nat (date_check + 1 - start_date))")
     auto

declare streak_loop.simps [simp del]

text \<open>
  \<open>get_analytics\<close>. \<open>auth\<close> is \<open>request.auth\<close>, \<open>today\<close> is
  \<open>datetime.now().date()\<close>. The handler has no \<open>try\<close>: \<open>Http404\<close> is answered 404,
  any other exception (the division by \<open>days = 0\<close>, a missing category row) 500.
\<close>

definition get_analytics :: "date \<Rightarrow> db \<Rightarrow> int \<Rightarrow> int \<Rightarrow> AnalyticsResponse response" where
  "get_analytics today d auth days =
     (case get_object (\<lambda>u. u_id u = auth) (users d) of
        None \<Rightarrow> NotFound
      | Some usr \<Rightarrow>
          (let end_date = today;
               start_date = end_date - days;
               sessions' = pomodoro_sessions d (u_id usr) start_date end_date;
               tasks' = window_tasks d (u_id usr) start_date end_date;
               work = filter is_work sessions';
               pomodoro_ts = sort_key fst (annotate_count (map (\<lambda>s. dt_date (start_time s)) work));
               task_ts = sort_key fst
                 (annotate_count (map (\<lambda>t. dt_date (updated_at t)) (filter is_done tasks')));
               category_counts = order_by (\<lambda>a b. snd b < snd a)
                                   (annotate_count (map t_category tasks'))
           in case category_points d category_counts of
                Inl _ \<Rightarrow> ServerError
              | Inr category_distribution' \<Rightarrow>
                  (let priority_counts = order_by (\<lambda>a b. str_less (fst a) (fst b))
                                           (annotate_count (map priority tasks'));
                       total = int (length work);
                       completed = int (length (filter is_done tasks'));
                       total_duration_seconds = sum_duration work;
                       total_tasks = int (length tasks')
                   in if days = 0 then ServerError
                      else Ok
                        \<lparr>pomodoro_time_series =
                           date_loop start_date end_date
                             (\<lambda>c. [\<lparr>tp_date = c, tp_value = count_on pomodoro_ts c\<rparr>]),
                         task_completion_time_series =
                           date_loop start_date end_date
                             (\<lambda>c. [\<lparr>tp_date = c, tp_value = count_on task_ts c\<rparr>]),
                         category_distribution = category_distribution',
                         priority_distribution =
                           map (\<lambda>item. \<lparr>pd_priority = fst item, pd_value = snd item\<rparr>) priority_counts,
                         productivity_stats =
                           \<lparr>total_pomodoros = total,
                            completed_tasks = completed,
                            focus_hours = py_round (of_int total_duration_seconds / 3600) 1,
                            completion_rate =
                              (if total_tasks > 0 then py_round (of_int completed / of_int total_tasks) 2
                               else 0),
                            daily_average = py_round (of_int total / of_int days) 1,
                            streak = streak_loop d (u_id usr) start_date end_date 0\<rparr>,
                         daily_stats =
                           date_loop start_date end_date
                             (\<lambda>c. let on_day = filter (\<lambda>s. dt_date (start_time s) = c) work;
                                      daily_pomodoros = int (length on_day);
                                      daily_tasks_completed =
                                        int (length (filter (\<lambda>t. is_done t \<and> dt_date (updated_at t) = c)
                                                       tasks'))
                                  in if daily_pomodoros > 0 \<or> daily_tasks_completed > 0
                                     then [\<lparr>ds_date = c, ds_pomodoros = daily_pomodoros,
                                            ds_tasks_completed = daily_tasks_completed,
                                            ds_focus_minutes = sum_duration on_day div 60\<rparr>]
                                     else [])\<rparr>)))"

text \<open>\<open>get_analytics_by_date_range\<close>: the number of days of the range, then \<open>get_analytics\<close>.\<close>

definition get_analytics_by_date_range ::
  "date \<Rightarrow> db \<Rightarrow> int \<Rightarrow> TimeRangeSchema \<Rightarrow> AnalyticsResponse response" where
  "get_analytics_by_date_range today d auth date_range =
     (let days = (tr_end_date date_range - tr_start_date date_range) + 1
      in get_analytics today d auth days)"

section \<open>Tasks, categories and tags (routers/tasks.py)\<close>

record CategorySchema =
  cs_id :: int
  cs_name :: string
  cs_color_code :: string

record CategoryCreateSchema =
  cc_name :: string
  cc_color_code :: string

record TagSchema =
  gs_id :: int
  gs_name :: string
  gs_color_code :: string

record TagCreateSchema =
  gc_name :: string
  gc_color_code :: string

record TaskSchema =
  ts_id :: int
  ts_title :: string
  ts_description :: "string option"
  ts_status :: string
  ts_priority :: string
  ts_due_date :: "date option"
  ts_estimated_pomodoros :: int
  ts_completed_pomodoros :: int
  ts_created_at :: datetime
  ts_updated_at :: datetime
  ts_category_id :: "int option"
  ts_category_name :: "string option"
  ts_category_color :: "string option"
  ts_tags :: "TagSchema list"

record TaskCreateSchema =
  tc_title :: string
  tc_description :: "string option"
  tc_status :: string
  tc_priority :: string
  tc_due_date :: "date option"
  tc_estimated_pomodoros :: int
  tc_category_id :: "int option"
  tc_tag_ids :: "int list"

record TaskUpdateSchema =
  tu_title :: "string option"
  tu_description :: "string option"
  tu_status :: "string option"
  tu_priority :: "string option"
  tu_due_date :: "date option"
  tu_estimated_pomodoros :: "int option"
  tu_completed_pomodoros :: "int option"
  tu_category_id :: "int option"
  tu_tag_ids :: "int list option"

definition category_schema :: "category \<Rightarrow> CategorySchema" where
  "category_schema c = \<lparr>cs_id = c_id c, cs_name = c_name c, cs_color_code = c_color_code c\<rparr>"

definition tag_schema :: "tag \<Rightarrow> TagSchema" where
  "tag_schema g = \<lparr>gs_id = g_id g, gs_name = g_name g, gs_color_code = g_color_code g\<rparr>"

text \<open>
  \<open>task.category\<close>: \<open>None\<close> when the key is null, else the category row of that key;
  \<open>Inl ()\<close> when that row is missing and the access raises. \<open>task.tags.all()\<close>: the
  tag rows the task is linked to.
\<close>

definition task_category :: "db \<Rightarrow> task \<Rightarrow> unit + category option" where
  "task_category d t =
     (case t_category t of
        None \<Rightarrow> Inr None
      | Some cid \<Rightarrow>
          (case get_object (\<lambda>c. c_id c = cid) (categories d) of
             None \<Rightarrow> Inl ()
           | Some c \<Rightarrow> Inr (Some c)))"

definition task_tags :: "db \<Rightarrow> task \<Rightarrow> tag list" where
  "task_tags d t = filter (\<lambda>g. g_id g \<in> set (t_tags t)) (tags d)"

definition task_data :: "db \<Rightarrow> task \<Rightarrow> category option \<Rightarrow> TaskSchema" where
  "task_data d t c =
     \<lparr>ts_id = t_id t, ts_title = title t, ts_description = description t,
      ts_status = status t, ts_priority = priority t, ts_due_date = due_date t,
      ts_estimated_pomodoros = estimated_pomodoros t,
      ts_completed_pomodoros = completed_pomodoros t,
      ts_created_at = created_at t, ts_updated_at = updated_at t,
      ts_category_id = map_option c_id c, ts_category_name = map_option c_name c,
      ts_category_color = map_option c_color_code c,
      ts_tags = map tag_schema (task_tags d t)\<rparr>"

text \<open>
  \<open>icontains\<close>: containment without regard to the case of ASCII letters; a null column
  contains nothing.
\<close>

definition ascii_lower :: "char \<Rightarrow> char" where
  "ascii_lower c = (let n = (of_char c :: nat)
                    in if 65 \<le> n \<and> n \<le> 90 then char_of (n + 32) else c)"

fun contains :: "string \<Rightarrow> string \<Rightarrow> bool" where
  "contains [] sub = (sub = [])"
| "contains (c # cs) sub = (startswith (c # cs) sub \<or> contains cs sub)"

definition icontains :: "string \<Rightarrow> string \<Rightarrow> bool" where
  "icontains s sub = contains (map ascii_lower s) (map ascii_lower sub)"

text \<open>
  \<open>order_by("-priority", "due_date", "created_at")\<close>: the priority column, a string,
  descending; then the due date ascending, a null date before every date; then the
  creation time ascending.
\<close>

definition due_less :: "date option \<Rightarrow> date option \<Rightarrow> bool" where
  "due_less a b = (case b of None \<Rightarrow> False
                   | Some y \<Rightarrow> (case a of None \<Rightarrow> True | Some x \<Rightarrow> x < y))"

definition task_before :: "task \<Rightarrow> task \<Rightarrow> bool" where
  "task_before a b =
     (str_less (priority b) (priority a)
      \<or> (priority a = priority b
          \<and> (due_less (due_date a) (due_date b)
              \<or> (due_date a = due_date b \<and> dt_less (created_at a) (created_at b)))))"

text \<open>
  \<open>list_tasks\<close>. A filter applies when its parameter is truthy. With
  \<open>select_related("category")\<close> the category comes from the join: a key without its row
  gives no category.
\<close>

definition truthy_str :: "string option \<Rightarrow> bool" where
  "truthy_str v = (case v of None \<Rightarrow> False | Some s \<Rightarrow> s \<noteq> [])"

definition list_tasks ::
  "jwt_decode \<Rightarrow> db \<Rightarrow> string option \<Rightarrow> string option \<Rightarrow> int option \<Rightarrow> string option
     \<Rightarrow> string option \<Rightarrow> TaskSchema list response" where
  "list_tasks dec d status' priority' category_id search authorization =
     (let user_id = get_user_id_from_token dec authorization in
      if falsy user_id then Pair401
      else
        (let q0 = filter (\<lambda>t. Some (t_user t) = user_id) (tasks d);
             q1 = (if truthy_str status' then filter (\<lambda>t. Some (status t) = status') q0 else q0);
             q2 = (if truthy_str priority' then filter (\<lambda>t. Some (priority t) = priority') q1 else q1);
             q3 = (if \<not> falsy category_id then filter (\<lambda>t. t_category t = category_id) q2 else q2);
             q4 = (case search of
                     None \<Rightarrow> q3
                   | Some w \<Rightarrow>
                       if w = [] then q3
                       else filter (\<lambda>t. icontains (title t) w
                                         \<or> (case description t of None \<Rightarrow> False
                                             | Some x \<Rightarrow> icontains x w)) q3)
         in Ok (map (\<lambda>t. task_data d t
                            (case t_category t of None \<Rightarrow> None
                             | Some cid \<Rightarrow> get_object (\<lambda>c. c_id c = cid) (categories d)))
                  (order_by task_before q4))))"

text \<open>
  The handlers below have no \<open>try\<close>: the \<open>Http404\<close> of \<open>get_object_or_404\<close> is
  answered 404 and any other exception 500.
\<close>

definition create_task ::
  "jwt_decode \<Rightarrow> datetime \<Rightarrow> db \<Rightarrow> TaskCreateSchema \<Rightarrow> string option
     \<Rightarrow> TaskSchema response \<times> db" where
  "create_task dec now d data authorization =
     (let user_id = get_user_id_from_token dec authorization in
      if falsy user_id then (Pair401, d)
      else
        (case get_object (\<lambda>u. Some (u_id u) = user_id) (users d) of
           None \<Rightarrow> (NotFound, d)
         | Some usr \<Rightarrow>
             (case (if falsy (tc_category_id data) then Inr None
                    else (case get_object (\<lambda>c. Some (c_id c) = tc_category_id data
                                                  \<and> c_user c = u_id usr) (categories d) of
                            None \<Rightarrow> Inl ()
                          | Some c \<Rightarrow> Inr (Some c))) of
                Inl _ \<Rightarrow> (NotFound, d)
              | Inr cat \<Rightarrow>
                  if tc_estimated_pomodoros data < 0 then (ServerError, d)
                  else
                    (let t0 = \<lparr>t_id = next_id d, title = tc_title data,
                               description = tc_description data, status = tc_status data,
                               priority = tc_priority data, due_date = tc_due_date data,
                               estimated_pomodoros = tc_estimated_pomodoros data,
                               completed_pomodoros = 0, created_at = now, updated_at = now,
                               t_user = u_id usr, t_category = map_option c_id cat, t_tags = []\<rparr>;
                         t1 = (if tc_tag_ids data \<noteq> []
                               then t0\<lparr>t_tags := map g_id
                                      (filter (\<lambda>g. g_id g \<in> set (tc_tag_ids data) \<and> g_user g = u_id usr)
                                         (tags d))\<rparr>
                               else t0);
                         d1 = d\<lparr>tasks := tasks d @ [t1], next_id := next_id d + 1\<rparr>
                     in (Ok (task_data d1 t1 cat), d1)))))"

definition get_task ::
  "jwt_decode \<Rightarrow> db \<Rightarrow> int \<Rightarrow> string option \<Rightarrow> TaskSchema response" where
  "get_task dec d task_id authorization =
     (let user_id = get_user_id_from_token dec authorization in
      if falsy user_id then Pair401
      else
        (case get_object (\<lambda>t. t_id t = task_id \<and> Some (t_user t) = user_id) (tasks d) of
           None \<Rightarrow> NotFound
         | Some t \<Rightarrow>
             (case task_category d t of
                Inl _ \<Rightarrow> ServerError
              | Inr c \<Rightarrow> Ok (task_data d t c))))"

text \<open>
  \<open>update_task\<close>. A field is written when it is supplied (\<open>is not None\<close>).
  \<open>task.tags.set(tags)\<close> writes the links at once, before \<open>task.save()\<close>.
\<close>

definition set_tags :: "int \<Rightarrow> int list \<Rightarrow> db \<Rightarrow> db" where
  "set_tags tid ids d =
     d\<lparr>tasks := map (\<lambda>r. if t_id r = tid then r\<lparr>t_tags := ids\<rparr> else r) (tasks d)\<rparr>"

definition update_fields :: "task \<Rightarrow> TaskUpdateSchema \<Rightarrow> task" where
  "update_fields t data =
     t\<lparr>title := (case tu_title data of None \<Rightarrow> title t | Some v \<Rightarrow> v),
       description := (case tu_description data of None \<Rightarrow> description t | Some v \<Rightarrow> Some v),
       status := (case tu_status data of None \<Rightarrow> status t | Some v \<Rightarrow> v),
       priority := (case tu_priority data of None \<Rightarrow> priority t | Some v \<Rightarrow> v),
       due_date := (case tu_due_date data of None \<Rightarrow> due_date t | Some v \<Rightarrow> Some v),
       estimated_pomodoros :=
         (case tu_estimated_pomodoros data of None \<Rightarrow> estimated_pomodoros t | Some v \<Rightarrow> v),
       completed_pomodoros :=
         (case tu_completed_pomodoros data of None \<Rightarrow> completed_pomodoros t | Some v \<Rightarrow> v)\<rparr>"

definition update_task ::
  "jwt_decode \<Rightarrow> datetime \<Rightarrow> db \<Rightarrow> int \<Rightarrow> TaskUpdateSchema \<Rightarrow> string option
     \<Rightarrow> TaskSchema response \<times> db" where
  "update_task dec now d task_id data authorization =
     (let user_id = get_user_id_from_token dec authorization in
      if falsy user_id then (Pair401, d)
      else
        (case get_object (\<lambda>t. t_id t = task_id \<and> Some (t_user t) = user_id) (tasks d) of
           None \<Rightarrow> (NotFound, d)
         | Some task0 \<Rightarrow>
             (let t1 = update_fields task0 data in
              case (case tu_category_id data of
                      None \<Rightarrow> Inr t1
                    | Some cid \<Rightarrow>
                        if cid = 0 then Inr (t1\<lparr>t_category := None\<rparr>)
                        else (case get_object (\<lambda>c. c_id c = cid \<and> Some (c_user c) = user_id)
                                     (categories d) of
                                None \<Rightarrow> Inl ()
                              | Some c \<Rightarrow> Inr (t1\<lparr>t_category := Some (c_id c)\<rparr>))) of
                Inl _ \<Rightarrow> (NotFound, d)
              | Inr t2 \<Rightarrow>
                  (let ids = (case tu_tag_ids data of
                                None \<Rightarrow> t_tags t2
                              | Some wanted \<Rightarrow>
                                  map g_id (filter (\<lambda>g. g_id g \<in> set wanted \<and> Some (g_user g) = user_id)
                                              (tags d)));
                       d1 = (case tu_tag_ids data of
                               None \<Rightarrow> d
                             | Some wanted \<Rightarrow> set_tags (t_id t2) ids d);
                       t3 = t2\<lparr>t_tags := ids\<rparr>
                   in case save_task now t3 d1 of
                        None \<Rightarrow> (ServerError, d1)
                      | Some d2 \<Rightarrow>
                          (case task_category d2 t3 of
                             Inl _ \<Rightarrow> (ServerError, d2)
                           | Inr c \<Rightarrow> (Ok (task_data d2 (t3\<lparr>updated_at := now\<rparr>) c), d2))))))"

text \<open>
  \<open>delete_task\<close>. Deleting the row nulls the \<open>task\<close> key of its sessions
  (\<open>on_delete=SET_NULL\<close>).
\<close>

definition delete_row_task :: "int \<Rightarrow> db \<Rightarrow> db" where
  "delete_row_task tid d =
     d\<lparr>tasks := filter (\<lambda>r. t_id r \<noteq> tid) (tasks d),
       sessions := map (\<lambda>s. if s_task s = Some tid then s\<lparr>s_task := None\<rparr> else s) (sessions d)\<rparr>"

definition delete_task ::
  "jwt_decode \<Rightarrow> db \<Rightarrow> int \<Rightarrow> string option \<Rightarrow> unit response \<times> db" where
  "delete_task dec d task_id authorization =
     (let user_id = get_user_id_from_token dec authorization in
      if falsy user_id then (Pair401, d)
      else
        (case get_object (\<lambda>t. t_id t = task_id \<and> Some (t_user t) = user_id) (tasks d) of
           None \<Rightarrow> (NotFound, d)
         | Some t \<Rightarrow> (Ok (), delete_row_task (t_id t) d)))"

definition complete_task ::
  "jwt_decode \<Rightarrow> datetime \<Rightarrow> db \<Rightarrow> int \<Rightarrow> string option \<Rightarrow> unit response \<times> db" where
  "complete_task dec now d task_id authorization =
     (let user_id = get_user_id_from_token dec authorization in
      if falsy user_id then (Pair401, d)
      else
        (case get_object (\<lambda>t. t_id t = task_id \<and> Some (t_user t) = user_id) (tasks d) of
           None \<Rightarrow> (NotFound, d)
         | Some t \<Rightarrow>
             (case save_task now (t\<lparr>status := ''completed''\<rparr>) d of
                None \<Rightarrow> (ServerError, d)
              | Some d1 \<Rightarrow> (Ok (), d1))))"

definition list_categories ::
  "jwt_decode \<Rightarrow> db \<Rightarrow> string option \<Rightarrow> CategorySchema list response" where
  "list_categories dec d authorization =
     (let user_id = get_user_id_from_token dec authorization in
      if falsy user_id then Pair401
      else Ok (map category_schema (filter (\<lambda>c. Some (c_user c) = user_id) (categories d))))"

definition create_category ::
  "jwt_decode \<Rightarrow> db \<Rightarrow> CategoryCreateSchema \<Rightarrow> string option
     \<Rightarrow> CategorySchema response \<times> db" where
  "create_category dec d data authorization =
     (let user_id = get_user_id_from_token dec authorization in
      if falsy user_id then (Pair401, d)
      else
        (case get_object (\<lambda>u. Some (u_id u) = user_id) (users d) of
           None \<Rightarrow> (NotFound, d)
         | Some usr \<Rightarrow>
             (let c = \<lparr>c_id = next_id d, c_name = cc_name data,
                       c_color_code = cc_color_code data, c_user = u_id usr\<rparr>
              in (Ok (category_schema c),
                  d\<lparr>categories := categories d @ [c], next_id := next_id d + 1\<rparr>))))"

definition update_category ::
  "jwt_decode \<Rightarrow> db \<Rightarrow> int \<Rightarrow> CategoryCreateSchema \<Rightarrow> string option
     \<Rightarrow> CategorySchema response \<times> db" where
  "update_category dec d category_id data authorization =
     (let user_id = get_user_id_from_token dec authorization in
      if falsy user_id then (Pair401, d)
      else
        (case get_object (\<lambda>c. c_id c = category_id \<and> Some (c_user c) = user_id) (categories d) of
           None \<Rightarrow> (NotFound, d)
         | Some c0 \<Rightarrow>
             (let c = c0\<lparr>c_name := cc_name data, c_color_code := cc_color_code data\<rparr>
              in (Ok (category_schema c),
                  d\<lparr>categories := map (\<lambda>r. if c_id r = c_id c then c else r) (categories d)\<rparr>))))"

text \<open>
  \<open>delete_category\<close>: \<open>Task.objects.filter(category=category).update(category=None)\<close>
  (an \<open>update\<close> leaves \<open>updated_at\<close> alone), then the row is deleted.
\<close>

definition delete_category ::
  "jwt_decode \<Rightarrow> db \<Rightarrow> int \<Rightarrow> string option \<Rightarrow> unit response \<times> db" where
  "delete_category dec d category_id authorization =
     (let user_id = get_user_id_from_token dec authorization in
      if falsy user_id then (Pair401, d)
      else
        (case get_object (\<lambda>c. c_id c = category_id \<and> Some (c_user c) = user_id) (categories d) of
           None \<Rightarrow> (NotFound, d)
         | Some c \<Rightarrow>
             (Ok (),
              d\<lparr>tasks := map (\<lambda>t. if t_category t = Some (c_id c) then t\<lparr>t_category := None\<rparr> else t)
                            (tasks d),
                categories := filter (\<lambda>r. c_id r \<noteq> c_id c) (categories d)\<rparr>)))"

definition list_tags ::
  "jwt_decode \<Rightarrow> db \<Rightarrow> string option \<Rightarrow> TagSchema list response" where
  "list_tags dec d authorization =
     (let user_id = get_user_id_from_token dec authorization in
      if falsy user_id then Pair401
      else Ok (map tag_schema (filter (\<lambda>g. Some (g_user g) = user_id) (tags d))))"

definition create_tag ::
  "jwt_decode \<Rightarrow> db \<Rightarrow> TagCreateSchema \<Rightarrow> string option \<Rightarrow> TagSchema response \<times> db" where
  "create_tag dec d data authorization =
     (let user_id = get_user_id_from_token dec authorization in
      if falsy user_id then (Pair401, d)
      else
        (case get_object (\<lambda>u. Some (u_id u) = user_id) (users d) of
           None \<Rightarrow> (NotFound, d)
         | Some usr \<Rightarrow>
             (let g = \<lparr>g_id = next_id d, g_name = gc_name data,
                       g_color_code = gc_color_code data, g_user = u_id usr\<rparr>
              in (Ok (tag_schema g), d\<lparr>tags := tags d @ [g], next_id := next_id d + 1\<rparr>))))"

definition update_tag ::
  "jwt_decode \<Rightarrow> db \<Rightarrow> int \<Rightarrow> TagCreateSchema \<Rightarrow> string option \<Rightarrow> TagSchema response \<times> db" where
  "update_tag dec d tag_id data authorization =
     (let user_id = get_user_id_from_token dec authorization in
      if falsy user_id then (Pair401, d)
      else
        (case get_object (\<lambda>g. g_id g = tag_id \<and> Some (g_user g) = user_id) (tags d) of
           None \<Rightarrow> (NotFound, d)
         | Some g0 \<Rightarrow>
             (let g = g0\<lparr>g_name := gc_name data, g_color_code := gc_color_code data\<rparr>
              in (Ok (tag_schema g),
                  d\<lparr>tags := map (\<lambda>r. if g_id r = g_id g then g else r) (tags d)\<rparr>))))"

text \<open>\<open>delete_tag\<close>: the tag is removed from every task that has it, then deleted.\<close>

definition delete_tag ::
  "jwt_decode \<Rightarrow> db \<Rightarrow> int \<Rightarrow> string option \<Rightarrow> unit response \<times> db" where
  "delete_tag dec d tag_id authorization =
     (let user_id = get_user_id_from_token dec authorization in
      if falsy user_id then (Pair401, d)
      else
        (case get_object (\<lambda>g. g_id g = tag_id \<and> Some (g_user g) = user_id) (tags d) of
           None \<Rightarrow> (NotFound, d)
         | Some g \<Rightarrow>
             (Ok (),
              d\<lparr>tasks := map (\<lambda>t. t\<lparr>t_tags := filter (\<lambda>i. i \<noteq> g_id g) (t_tags t)\<rparr>) (tasks d),
                tags := filter (\<lambda>r. g_id r \<noteq> g_id g) (tags d)\<rparr>)))"

section \<open>History, statistics and task analytics\<close>

record PomodoroStatsSchema =
  st_total_sessions :: int
  st_total_completed :: int
  st_total_minutes :: int
  st_work_sessions :: int
  st_short_break_sessions :: int
  st_long_break_sessions :: int
  st_completion_rate :: rat
  st_most_productive_day :: "date option"
  st_most_focused_task_id :: "int option"
  st_most_focused_task_title :: "string option"

text \<open>The default ordering of sessions, \<open>-start_time\<close>.\<close>

definition newest_first :: "session list \<Rightarrow> session list" where
  "newest_first ss = order_by (\<lambda>a b. dt_less (start_time b) (start_time a)) ss"

fun session_schemas :: "db \<Rightarrow> session list \<Rightarrow> unit + PomodoroSessionSchema list" where
  "session_schemas d [] = Inr []"
| "session_schemas d (s # ss) =
     (case session_task d s of
        Inl e \<Rightarrow> Inl e
      | Inr t \<Rightarrow> (case session_schemas d ss of
                    Inl e \<Rightarrow> Inl e
                  | Inr rs \<Rightarrow> Inr (session_schema s t # rs)))"

definition get_history ::
  "jwt_decode \<Rightarrow> datetime \<Rightarrow> db \<Rightarrow> int \<Rightarrow> int option \<Rightarrow> string option
     \<Rightarrow> PomodoroSessionSchema list response" where
  "get_history dec now d days task_id authorization =
     (let user_id = get_user_id_from_token dec authorization in
      if falsy user_id then Unauthorized
      else
        (let start_date = minus_days now days;
             q0 = newest_first
                    (filter (\<lambda>s. Some (s_user s) = user_id \<and> \<not> dt_less (start_time s) start_date)
                       (sessions d));
             q1 = (if \<not> falsy task_id then filter (\<lambda>s. s_task s = task_id) q0 else q0)
         in case session_schemas d q1 of
              Inl _ \<Rightarrow> ServerError
            | Inr rs \<Rightarrow> Ok rs))"

text \<open>
  \<open>day_counts\<close>: a dictionary filled in iteration order; \<open>max(..., key=...)\<close> returns
  the first entry with the largest count.
\<close>

definition dict_counts :: "'k list \<Rightarrow> ('k \<times> int) list" where
  "dict_counts ks = map (\<lambda>k. (k, int (count_list ks k))) (rev (remdups (rev ks)))"

fun first_max :: "('k \<times> int) \<Rightarrow> ('k \<times> int) list \<Rightarrow> ('k \<times> int)" where
  "first_max best [] = best"
| "first_max best (x # xs) = first_max (if snd best < snd x then x else best) xs"

definition get_stats ::
  "jwt_decode \<Rightarrow> datetime \<Rightarrow> db \<Rightarrow> int \<Rightarrow> string option \<Rightarrow> PomodoroStatsSchema response" where
  "get_stats dec now d days authorization =
     (let user_id = get_user_id_from_token dec authorization in
      if falsy user_id then Unauthorized
      else
        (let start_date = minus_days now days;
             sessions' = newest_first
                    (filter (\<lambda>s. Some (s_user s) = user_id \<and> \<not> dt_less (start_time s) start_date)
                       (sessions d));
             total_sessions = int (length sessions');
             completed = filter is_completed sessions';
             completed_sessions = int (length completed);
             done_work = filter (\<lambda>s. s_type s = ''work'') completed;
             day_counts = dict_counts (map (\<lambda>s. dt_date (start_time s)) done_work);
             task_stats = order_by (\<lambda>a b. snd b < snd a)
                            (annotate_count (map s_task (filter (\<lambda>s. s_task s \<noteq> None) done_work)))
         in case (case task_stats of
                    [] \<Rightarrow> Inr None
                  | item # _ \<Rightarrow>
                      (case get_object (\<lambda>t. Some (t_id t) = fst item) (tasks d) of
                         None \<Rightarrow> Inl ()
                       | Some t \<Rightarrow> Inr (Some t))) of
              Inl _ \<Rightarrow> ServerError
            | Inr focused \<Rightarrow>
                Ok \<lparr>st_total_sessions = total_sessions,
                    st_total_completed = completed_sessions,
                    st_total_minutes = sum_duration completed div 60,
                    st_work_sessions = int (length done_work),
                    st_short_break_sessions =
                      int (length (filter (\<lambda>s. s_type s = ''short_break'') completed)),
                    st_long_break_sessions =
                      int (length (filter (\<lambda>s. s_type s = ''long_break'') completed)),
                    st_completion_rate =
                      py_round (if total_sessions > 0
                                then of_int completed_sessions / of_int total_sessions else 0) 2,
                    st_most_productive_day =
                      (case day_counts of [] \<Rightarrow> None
                       | x # xs \<Rightarrow> Some (fst (first_max x xs))),
                    st_most_focused_task_id = map_option t_id focused,
                    st_most_focused_task_title = map_option title focused\<rparr>))"

record TaskAnalytics =
  ta_task_id :: int
  ta_task_title :: string
  ta_status :: string
  ta_priority :: string
  ta_estimated_pomodoros :: int
  ta_completed_pomodoros :: int
  ta_total_focus_minutes :: int
  ta_daily_average :: rat
  ta_completion_percentage :: rat
  ta_pomodoro_time_series :: "TimeSeriesDataPoint list"

definition get_task_analytics :: "db \<Rightarrow> int \<Rightarrow> int \<Rightarrow> TaskAnalytics response" where
  "get_task_analytics d auth task_id =
     (case get_object (\<lambda>t. t_id t = task_id \<and> t_user t = auth) (tasks d) of
        None \<Rightarrow> NotFound
      | Some t \<Rightarrow>
          (let sessions' = filter (\<lambda>s. s_task s = Some (t_id t) \<and> s_type s = ''work'' \<and> is_completed s)
                             (sessions d);
               total = int (length sessions');
               days_of = map (\<lambda>s. dt_date (start_time s)) sessions'
           in Ok \<lparr>ta_task_id = t_id t, ta_task_title = title t, ta_status = status t,
                  ta_priority = priority t,
                  ta_estimated_pomodoros = estimated_pomodoros t,
                  ta_completed_pomodoros = completed_pomodoros t,
                  ta_total_focus_minutes = sum_duration sessions' div 60,
                  ta_daily_average =
                    (case days_of of
                       [] \<Rightarrow> 0
                     | x # xs \<Rightarrow>
                         py_round (of_int total / of_int (fold max xs x - fold min xs x + 1)) 1),
                  ta_completion_percentage =
                    (if estimated_pomodoros t > 0
                     then py_round (of_int (completed_pomodoros t) / of_int (estimated_pomodoros t) * 100) 1
                     else 0),
                  ta_pomodoro_time_series =
                    map (\<lambda>item. \<lparr>tp_date = fst item, tp_value = snd item\<rparr>)
                      (sort_key fst (annotate_count days_of))\<rparr>))"

section \<open>Profile and settings (routers/auth.py)\<close>

record UserProfileSchema =
  up_id :: int
  up_username :: string
  up_email :: string
  up_first_name :: string
  up_last_name :: string
  up_date_joined :: datetime

record UserSettingsSchema =
  ss_work_duration :: int
  ss_short_break_duration :: int
  ss_long_break_duration :: int
  ss_long_break_interval :: int
  ss_notifications_enabled :: bool

text \<open>
  \<open>get_user\<close>: the user id is the query parameter \<open>user_id\<close> when it is given, and is
  read from the token only when it is not. \<open>User.objects.get\<close> raises
  \<open>User.DoesNotExist\<close>, which the handler answers 404.
\<close>

definition get_user ::
  "jwt_decode \<Rightarrow> db \<Rightarrow> int option \<Rightarrow> string option \<Rightarrow> UserProfileSchema response" where
  "get_user dec d user_id authorization =
     (let user_id' = (if user_id = None then get_user_id_from_token dec authorization else user_id)
      in case user_id' of
           None \<Rightarrow> Unauthorized
         | Some uid \<Rightarrow>
             (case get_object (\<lambda>u. u_id u = uid) (users d) of
                None \<Rightarrow> NotFound
              | Some u \<Rightarrow>
                  Ok \<lparr>up_id = u_id u, up_username = username u, up_email = email u,
                      up_first_name = first_name u, up_last_name = last_name u,
                      up_date_joined = date_joined u\<rparr>))"

text \<open>\<open>UserSetting.objects.get_or_create(user=user)\<close>, with the defaults of the model.\<close>

definition get_or_create_setting :: "int \<Rightarrow> db \<Rightarrow> user_setting \<times> db" where
  "get_or_create_setting uid d =
     (case get_object (\<lambda>r. us_user r = uid) (user_settings d) of
        Some r \<Rightarrow> (r, d)
      | None \<Rightarrow>
          (let r = \<lparr>us_user = uid, work_duration = 25 * 60, short_break_duration = 5 * 60,
                    long_break_duration = 15 * 60, long_break_interval = 4,
                    notifications_enabled = True\<rparr>
           in (r, d\<lparr>user_settings := user_settings d @ [r]\<rparr>)))"

definition settings_schema :: "user_setting \<Rightarrow> UserSettingsSchema" where
  "settings_schema r =
     \<lparr>ss_work_duration = work_duration r, ss_short_break_duration = short_break_duration r,
      ss_long_break_duration = long_break_duration r,
      ss_long_break_interval = long_break_interval r,
      ss_notifications_enabled = notifications_enabled r\<rparr>"

definition get_user_settings ::
  "jwt_decode \<Rightarrow> db \<Rightarrow> string option \<Rightarrow> UserSettingsSchema response \<times> db" where
  "get_user_settings dec d authorization =
     (case get_user_id_from_token dec authorization of
        None \<Rightarrow> (Unauthorized, d)
      | Some uid \<Rightarrow>
          (case get_object (\<lambda>u. u_id u = uid) (users d) of
             None \<Rightarrow> (NotFound, d)
           | Some u \<Rightarrow>
               (let (r, d1) = get_or_create_setting (u_id u) d
                in (Ok (settings_schema r), d1))))"

definition update_user_settings ::
  "jwt_decode \<Rightarrow> db \<Rightarrow> UserSettingsSchema \<Rightarrow> string option
     \<Rightarrow> UserSettingsSchema response \<times> db" where
  "update_user_settings dec d data authorization =
     (case get_user_id_from_token dec authorization of
        None \<Rightarrow> (Unauthorized, d)
      | Some uid \<Rightarrow>
          (case get_object (\<lambda>u. u_id u = uid) (users d) of
             None \<Rightarrow> (NotFound, d)
           | Some u \<Rightarrow>
               (let (r0, d1) = get_or_create_setting (u_id u) d;
                    r = r0\<lparr>work_duration := ss_work_duration data,
                           short_break_duration := ss_short_break_duration data,
                           long_break_duration := ss_long_break_duration data,
                           long_break_interval := ss_long_break_interval data,
                           notifications_enabled := ss_notifications_enabled data\<rparr>
                in (Ok (settings_schema r),
                    d1\<lparr>user_settings := map (\<lambda>x. if us_user x = us_user r then r else x)
                                            (user_settings d1)\<rparr>))))"

section \<open>The bearer check of the routers (api.py)\<close>

text \<open>
  \<open>AuthBearer.authenticate\<close> decodes the token and returns \<open>payload.get("user_id")\<close>,
  or \<open>None\<close> on any exception.
\<close>

definition authenticate :: "jwt_decode \<Rightarrow> string \<Rightarrow> int option" where
  "authenticate dec token = (case dec token of PyJWTError \<Rightarrow> None | Payload uid \<Rightarrow> uid)"

text \<open>
  The framework's \<open>HttpBearer\<close>, which \<open>AuthBearer\<close> extends: the header is split at
  spaces, its first part must be \<open>bearer\<close> in any case, and the rest, joined by spaces
  again, is the token.
\<close>

definition http_bearer :: "jwt_decode \<Rightarrow> string option \<Rightarrow> int option" where
  "http_bearer dec authorization =
     (case authorization of
        None \<Rightarrow> None
      | Some a \<Rightarrow>
          if a = [] then None
          else (let scheme = takeWhile (\<lambda>c. c \<noteq> CHR '' '') a
                in if map ascii_lower scheme \<noteq> ''bearer'' then None
                   else authenticate dec (drop (length scheme + 1) a)))"

text \<open>
  A router added with \<open>auth=AuthBearer()\<close>: the handler \<open>h\<close> runs, with
  \<open>request.auth\<close>, when the check returns a truthy value; otherwise the answer is 401.
  The routers of \<open>/tasks\<close>, \<open>/pomodoro\<close> and \<open>/analytics\<close> are added so; the router of
  \<open>/auth\<close> is added without it.
\<close>

definition protected ::
  "jwt_decode \<Rightarrow> string option \<Rightarrow> db \<Rightarrow> (int \<Rightarrow> 'a response \<times> db) \<Rightarrow> 'a response \<times> db" where
  "protected dec authorization d h =
     (case http_bearer dec authorization of
        None \<Rightarrow> (Unauthorized, d)
      | Some auth \<Rightarrow> if auth = 0 then (Unauthorized, d) else h auth)"

text \<open>
  The routes of the API. A request is the route with its parameters and body; the
  \<open>Authorization\<close> header is passed beside it. The response bodies are collected in one
  type.
\<close>

datatype request =
    ListTasks "string option" "string option" "int option" "string option"
  | CreateTask TaskCreateSchema
  | GetTask int
  | UpdateTask int TaskUpdateSchema
  | DeleteTask int
  | CompleteTask int
  | ListCategories
  | CreateCategory CategoryCreateSchema
  | UpdateCategory int CategoryCreateSchema
  | DeleteCategory int
  | ListTags
  | CreateTag TagCreateSchema
  | UpdateTag int TagCreateSchema
  | DeleteTag int
  | StartSession SessionCreateSchema
  | CompleteSession int SessionUpdateSchema
  | GetHistory int "int option"
  | GetStats int
  | DeleteSession int
  | Dashboard int
  | DateRange TimeRangeSchema
  | GetTaskAnalytics int
  | GetUser "int option"
  | GetUserSettings
  | UpdateUserSettings UserSettingsSchema

datatype body =
    Tasks "TaskSchema list"
  | ATask TaskSchema
  | Success
  | Categories "CategorySchema list"
  | ACategory CategorySchema
  | Tags "TagSchema list"
  | ATag TagSchema
  | ASession PomodoroSessionSchema
  | History "PomodoroSessionSchema list"
  | Stats PomodoroStatsSchema
  | Analytics AnalyticsResponse
  | OfTask TaskAnalytics
  | Profile UserProfileSchema
  | Settings UserSettingsSchema

definition answer :: "('a \<Rightarrow> body) \<Rightarrow> 'a response \<times> db \<Rightarrow> body response \<times> db" where
  "answer f r = (map_response f (fst r), snd r)"

fun api :: "jwt_decode \<Rightarrow> datetime \<Rightarrow> db \<Rightarrow> request \<Rightarrow> string option \<Rightarrow> body response \<times> db" where
  "api dec now d (ListTasks st pr cat search) a =
     protected dec a d (\<lambda>auth. answer Tasks (list_tasks dec d st pr cat search a, d))"
| "api dec now d (CreateTask data) a =
     protected dec a d (\<lambda>auth. answer ATask (create_task dec now d data a))"
| "api dec now d (GetTask task_id) a =
     protected dec a d (\<lambda>auth. answer ATask (get_task dec d task_id a, d))"
| "api dec now d (UpdateTask task_id data) a =
     protected dec a d (\<lambda>auth. answer ATask (update_task dec now d task_id data a))"
| "api dec now d (DeleteTask task_id) a =
     protected dec a d (\<lambda>auth. answer (\<lambda>_. Success) (delete_task dec d task_id a))"
| "api dec now d (CompleteTask task_id) a =
     protected dec a d (\<lambda>auth. answer (\<lambda>_. Success) (complete_task dec now d task_id a))"
| "api dec now d ListCategories a =
     protected dec a d (\<lambda>auth. answer Categories (list_categories dec d a, d))"
| "api dec now d (CreateCategory data) a =
     protected dec a d (\<lambda>auth. answer ACategory (create_category dec d data a))"
| "api dec now d (UpdateCategory category_id data) a =
     protected dec a d (\<lambda>auth. answer ACategory (update_category dec d category_id data a))"
| "api dec now d (DeleteCategory category_id) a =
     protected dec a d (\<lambda>auth. answer (\<lambda>_. Success) (delete_category dec d category_id a))"
| "api dec now d ListTags a =
     protected dec a d (\<lambda>auth. answer Tags (list_tags dec d a, d))"
| "api dec now d (CreateTag data) a =
     protected dec a d (\<lambda>auth. answer ATag (create_tag dec d data a))"
| "api dec now d (UpdateTag tag_id data) a =
     protected dec a d (\<lambda>auth. answer ATag (update_tag dec d tag_id data a))"
| "api dec now d (DeleteTag tag_id) a =
     protected dec a d (\<lambda>auth. answer (\<lambda>_. Success) (delete_tag dec d tag_id a))"
| "api dec now d (StartSession data) a =
     protected dec a d (\<lambda>auth. answer ASession (start_session dec now d data a))"
| "api dec now d (CompleteSession session_id data) a =
     protected dec a d (\<lambda>auth. answer ASession (complete_session dec now d session_id data a))"
| "api dec now d (GetHistory days task_id) a =
     protected dec a d (\<lambda>auth. answer History (get_history dec now d days task_id a, d))"
| "api dec now d (GetStats days) a =
     protected dec a d (\<lambda>auth. answer Stats (get_stats dec now d days a, d))"
| "api dec now d (DeleteSession session_id) a =
     protected dec a d (\<lambda>auth. answer (\<lambda>_. Success) (delete_session dec now d session_id a))"
| "api dec now d (Dashboard days) a =
     protected dec a d (\<lambda>auth. answer Analytics (get_analytics (dt_date now) d auth days, d))"
| "api dec now d (DateRange date_range) a =
     protected dec a d
       (\<lambda>auth. answer Analytics (get_analytics_by_date_range (dt_date now) d auth date_range, d))"
| "api dec now d (GetTaskAnalytics task_id) a =
     protected dec a d (\<lambda>auth. answer OfTask (get_task_analytics d auth task_id, d))"
| "api dec now d (GetUser user_id) a = answer Profile (get_user dec d user_id a, d)"
| "api dec now d GetUserSettings a = answer Settings (get_user_settings dec d a)"
| "api dec now d (UpdateUserSettings data) a = answer Settings (update_user_settings dec d data a)"

section \<open>Sequences of operations on one session\<close>




text \<open>The counter of a task as the store holds it, and the end time as it is persisted.\<close>

definition task_counter :: "db \<Rightarrow> int \<Rightarrow> int option" where
  "task_counter d tid =
     map_option completed_pomodoros (get_object (\<lambda>t. t_id t = tid) (tasks d))"

definition normalized_end :: "SessionUpdateSchema \<Rightarrow> datetime" where
  "normalized_end data = (if dt_tzinfo (su_end_time data) = None
                          then make_aware (su_end_time data) else su_end_time data)"

section \<open>An example store\<close>

text \<open>
  Two users, alice (1) and bob (2); \<open>tokA\<close> and \<open>tokB\<close> are their tokens and every
  other token is refused. Alice has one task and one open work session on it.
\<close>

definition demo_dec :: jwt_decode where
  "demo_dec tok = (if tok = ''tokA'' then Payload (Some 1)
                   else if tok = ''tokB'' then Payload (Some 2)
                   else PyJWTError)"

definition at_day :: "date \<Rightarrow> datetime" where
  "at_day n = \<lparr>dt_date = n, dt_secs = 32400, dt_tzinfo = Some TIME_ZONE\<rparr>"

definition demo_task :: task where
  "demo_task = \<lparr>t_id = 10, title = ''Write spec'', description = None, status = ''pending'',
      priority = ''high'', due_date = None, estimated_pomodoros = 2, completed_pomodoros = 0,
      created_at = at_day 100, updated_at = at_day 100, t_user = 1, t_category = None,
      t_tags = []\<rparr>"

definition demo_session :: session where
  "demo_session = \<lparr>s_id = 100, s_user = 1, s_task = Some 10, start_time = at_day 100,
      end_time = None, duration = 1500, s_type = ''work'', is_completed = False\<rparr>"

definition demo_user :: "int \<Rightarrow> string \<Rightarrow> user" where
  "demo_user i n = \<lparr>u_id = i, username = n, email = n @ ''@example.com'', first_name = [],
      last_name = [], date_joined = at_day 100\<rparr>"

definition demo_db :: db where
  "demo_db = \<lparr>users = [demo_user 1 ''alice'', demo_user 2 ''bob''], user_settings = [],
      categories = [], tags = [], tasks = [demo_task], sessions = [demo_session],
      next_id = 101\<rparr>"

definition done_at :: "bool \<Rightarrow> SessionUpdateSchema" where
  "done_at b = \<lparr>su_end_time = \<lparr>dt_date = 100, dt_secs = 33900, dt_tzinfo = None\<rparr>,
                su_is_completed = b\<rparr>"

text \<open>
  A store in which alice has completed work sessions on the days 198, 199 and 200 and on
  no other day.
\<close>

definition done_session :: "int \<Rightarrow> date \<Rightarrow> session" where
  "done_session i day = \<lparr>s_id = i, s_user = 1, s_task = Some 10, start_time = at_day day,
      end_time = Some (at_day day), duration = 1500, s_type = ''work'', is_completed = True\<rparr>"

definition streak_db :: db where
  "streak_db = demo_db\<lparr>sessions :=
      [done_session 100 198, done_session 101 199, done_session 102 200]\<rparr>"

text \<open>
  A store in which alice has three tasks, of priority high, medium and low, created in
  this order and without due date.
\<close>

definition prio_task :: "int \<Rightarrow> string \<Rightarrow> task" where
  "prio_task i p = demo_task\<lparr>t_id := i, priority := p, created_at := at_day i\<rparr>"

definition prio_db :: db where
  "prio_db = demo_db\<lparr>tasks := [prio_task 10 ''high'', prio_task 11 ''medium'',
                                 prio_task 12 ''low'']\<rparr>"

section \<open>Properties\<close>

subsection \<open>Rows found after a write\<close>

lemma find_map_replace:
  "find P rows = Some x \<Longrightarrow> P y \<Longrightarrow> (\<And>r. P r \<Longrightarrow> R r)
   \<Longrightarrow> find P (map (\<lambda>r. if R r then y else r) rows) = Some y"
  by (induction rows) (auto split: if_splits)


lemma get_object_holds: "get_object P rows = Some x \<Longrightarrow> P x"
  unfolding get_object_def by (auto dest: find_Some_iff[THEN iffD1])

subsection \<open>One call of complete or delete on a work session linked to a task\<close>

lemma complete_step:
  assumes auth: "get_user_id_from_token dec a = Some uid" "uid \<noteq> 0"
    and found: "get_object (\<lambda>s. s_id s = sid \<and> s_user s = uid) (sessions d) = Some s"
    and work: "s_type s = ''work''" "s_task s = Some tid" "0 \<le> duration s"
    and tsk: "get_object (\<lambda>t. t_id t = tid) (tasks d) = Some t"
             "0 \<le> completed_pomodoros t" "0 \<le> estimated_pomodoros t"
  shows "\<exists>r d' t'. complete_session dec now d sid data a = (Ok r, d')
           \<and> get_object (\<lambda>s. s_id s = sid \<and> s_user s = uid) (sessions d')
               = Some (s\<lparr>end_time := Some (normalized_end data),
                         is_completed := su_is_completed data\<rparr>)
           \<and> get_object (\<lambda>t. t_id t = tid) (tasks d') = Some t'
           \<and> completed_pomodoros t'
               = completed_pomodoros t + (if su_is_completed data then 1 else 0)
           \<and> estimated_pomodoros t' = estimated_pomodoros t"
proof -
  let ?s = "s\<lparr>end_time := Some (normalized_end data), is_completed := su_is_completed data\<rparr>"
  let ?P = "\<lambda>s. s_id s = sid \<and> s_user s = uid"
  from found have Ps: "?P s" by (rule get_object_holds)
  from tsk(1) have Pt: "t_id t = tid" by (rule get_object_holds)
  define d1 where
    "d1 = d\<lparr>sessions := map (\<lambda>r. if s_id r = s_id ?s then ?s else r) (sessions d)\<rparr>"
  have sv: "save_session ?s d = Some d1"
    using work by (simp add: save_session_def d1_def)
  have f1: "get_object ?P (sessions d1) = Some ?s"
    unfolding get_object_def d1_def using found Ps
    by (simp add: get_object_def) (rule find_map_replace[where x = s], auto)
  have t1: "tasks d1 = tasks d" by (simp add: d1_def)
  have st: "session_task d1 ?s = Inr (Some t)"
    using work tsk by (simp add: session_task_def t1)
  show ?thesis
  proof (cases "su_is_completed data")
    case False
    then show ?thesis using auth found sv st f1 t1 tsk
      by (simp add: complete_session_def falsy_def normalized_end_def Let_def)
  next
    case True
    let ?t = "t\<lparr>completed_pomodoros := completed_pomodoros t + 1\<rparr>"
    define d2 where
      "d2 = d1\<lparr>tasks := map (\<lambda>r. if t_id r = t_id ?t then ?t\<lparr>updated_at := now\<rparr> else r)
                           (tasks d1)\<rparr>"
    have sv2: "save_task now ?t d1 = Some d2"
      using tsk by (simp add: save_task_def d2_def)
    have f2: "get_object ?P (sessions d2) = Some ?s" using f1 by (simp add: d2_def)
    have t2: "get_object (\<lambda>t. t_id t = tid) (tasks d2) = Some (?t\<lparr>updated_at := now\<rparr>)"
      unfolding get_object_def d2_def using tsk(1) Pt
      by (simp add: get_object_def t1) (rule find_map_replace[where x = t], auto)
    show ?thesis using True auth found sv st sv2 f2 t2 work
      by (simp add: complete_session_def falsy_def normalized_end_def Let_def)
  qed
qed







subsection \<open>The example store\<close>

lemma demo_auth: "get_user_id_from_token demo_dec (Some ''Bearer tokA'') = Some 1"
  by code_simp

lemma demo_found:
  "get_object (\<lambda>s. s_id s = 100 \<and> s_user s = 1) (sessions demo_db) = Some demo_session"
  by (simp add: get_object_def demo_db_def demo_session_def)

lemma demo_tsk: "get_object (\<lambda>t. t_id t = 10) (tasks demo_db) = Some demo_task"
  by (simp add: get_object_def demo_db_def demo_task_def)

subsection \<open>Counter of a task under completions and deletions\<close>



subsection \<open>Repeated completion\<close>

text \<open>
  C2. Every call of complete with \<open>is_completed = true\<close> on a work session linked to a
  task adds exactly 1 to that task's counter, whatever the completion flag of the session
  was before the call; a second such call on the same session adds 1 again.
\<close>

theorem complete_session_increments:
  assumes "get_user_id_from_token dec a = Some uid" "uid \<noteq> 0"
    and "get_object (\<lambda>s. s_id s = sid \<and> s_user s = uid) (sessions d) = Some s"
    and "s_type s = ''work''" "s_task s = Some tid" "0 \<le> duration s"
    and "get_object (\<lambda>t. t_id t = tid) (tasks d) = Some t"
    and "0 \<le> completed_pomodoros t" "0 \<le> estimated_pomodoros t"
    and "su_is_completed data" "su_is_completed data'"
  shows "\<exists>r d1. complete_session dec now d sid data a = (Ok r, d1)
           \<and> task_counter d1 tid = Some (completed_pomodoros t + 1)
           \<and> (\<exists>r' d2. complete_session dec now' d1 sid data' a = (Ok r', d2)
                 \<and> task_counter d2 tid = Some (completed_pomodoros t + 2))"
proof -
  from complete_step[of dec a uid sid d s tid t now data] assms
  obtain r d1 t1 where 1: "complete_session dec now d sid data a = (Ok r, d1)"
    and s1: "get_object (\<lambda>s. s_id s = sid \<and> s_user s = uid) (sessions d1)
               = Some (s\<lparr>end_time := Some (normalized_end data),
                         is_completed := su_is_completed data\<rparr>)"
    and t1: "get_object (\<lambda>t. t_id t = tid) (tasks d1) = Some t1"
    and c1: "completed_pomodoros t1 = completed_pomodoros t + 1"
    and e1: "estimated_pomodoros t1 = estimated_pomodoros t"
    by auto
  from complete_step[of dec a uid sid d1 _ tid t1 now' data'] assms s1 t1 c1 e1
  obtain r' d2 t2 where 2: "complete_session dec now' d1 sid data' a = (Ok r', d2)"
    and t2: "get_object (\<lambda>t. t_id t = tid) (tasks d2) = Some t2"
    and c2: "completed_pomodoros t2 = completed_pomodoros t1 + 1"
    by auto
  show ?thesis using 1 2 t1 t2 c1 c2 by (simp add: task_counter_def)
qed

theorem complete_session_increments_witness:
  "get_user_id_from_token demo_dec (Some ''Bearer tokA'') = Some 1
   \<and> get_object (\<lambda>s. s_id s = 100 \<and> s_user s = 1) (sessions demo_db) = Some demo_session
   \<and> s_type demo_session = ''work'' \<and> s_task demo_session = Some 10
   \<and> get_object (\<lambda>t. t_id t = 10) (tasks demo_db) = Some demo_task
   \<and> completed_pomodoros demo_task = 0 \<and> su_is_completed (done_at True)
   \<and> (\<exists>r d1. complete_session demo_dec (at_day 100) demo_db 100 (done_at True)
                 (Some ''Bearer tokA'') = (Ok r, d1)
           \<and> task_counter d1 10 = Some 1
           \<and> (\<exists>r' d2. complete_session demo_dec (at_day 101) d1 100 (done_at True)
                         (Some ''Bearer tokA'') = (Ok r', d2)
                 \<and> task_counter d2 10 = Some 2))"
  using complete_session_increments[OF demo_auth _ demo_found _ _ _ demo_tsk,
      of "done_at True" "done_at True" "at_day 100" "at_day 101"]
    demo_auth demo_found demo_tsk
  by (simp add: demo_session_def demo_task_def done_at_def)

subsection \<open>Completion with the flag off\<close>



subsection \<open>The window of the dashboard\<close>

text \<open>Both series have one entry for each day from the start date to the end date.\<close>

lemma length_date_loop:
  "length (date_loop c e (\<lambda>x. [f x])) = nat (e + 1 - c)"
proof (induction c e "\<lambda>x. [f x]" rule: date_loop.induct)
  case (1 c e)
  show ?case
  proof (cases "c \<le> e")
    case True
    with 1 show ?thesis by (subst date_loop.simps) simp
  next
    case False
    then show ?thesis by (subst date_loop.simps) simp
  qed
qed

lemma map_date_loop:
  "map g (date_loop c e (\<lambda>x. [f x])) = date_loop c e (\<lambda>x. [g (f x)])"
proof (induction c e "\<lambda>x. [f x]" rule: date_loop.induct)
  case (1 c e)
  show ?case
  proof (cases "c \<le> e")
    case True
    with 1 show ?thesis
      by (subst date_loop.simps, subst (2) date_loop.simps) simp
  next
    case False
    then show ?thesis
      by (subst date_loop.simps, subst (2) date_loop.simps) simp
  qed
qed

text \<open>What an answer of the dashboard with status 200 tells about the request.\<close>

lemma get_analytics_OkE:
  assumes "get_analytics today d auth days = Ok r"
  obtains usr cd where "get_object (\<lambda>u. u_id u = auth) (users d) = Some usr"
    and "u_id usr = auth"
    and "category_points d
           (order_by (\<lambda>a b. snd b < snd a)
             (annotate_count (map t_category (window_tasks d auth (today - days) today))))
         = Inr cd"
    and "days \<noteq> 0"
proof (cases "get_object (\<lambda>u. u_id u = auth) (users d)")
  case None
  with assms show ?thesis by (simp add: get_analytics_def)
next
  case (Some usr)
  then have id: "u_id usr = auth" by (rule get_object_holds)
  let ?cp = "category_points d
       (order_by (\<lambda>a b. snd b < snd a)
         (annotate_count (map t_category (window_tasks d auth (today - days) today))))"
  show ?thesis
  proof (cases ?cp)
    case (Inl e)
    with assms Some id show ?thesis by (simp add: get_analytics_def Let_def)
  next
    case (Inr cd)
    show ?thesis
    proof (cases "days = 0")
      case True
      with assms Some id Inr show ?thesis by (simp add: get_analytics_def Let_def)
    next
      case False
      with Some id Inr that show ?thesis by blast
    qed
  qed
qed

lemma get_analytics_series:
  assumes "get_analytics today d auth days = Ok r"
  shows "map tp_date (pomodoro_time_series r) = date_loop (today - days) today (\<lambda>c. [c])"
    and "map tp_date (task_completion_time_series r) = date_loop (today - days) today (\<lambda>c. [c])"
proof -
  from assms obtain usr cd where
    "get_object (\<lambda>u. u_id u = auth) (users d) = Some usr" "u_id usr = auth"
    "category_points d
           (order_by (\<lambda>a b. snd b < snd a)
             (annotate_count (map t_category (window_tasks d auth (today - days) today))))
         = Inr cd" "days \<noteq> 0"
    by (rule get_analytics_OkE)
  with assms[symmetric]
  show "map tp_date (pomodoro_time_series r) = date_loop (today - days) today (\<lambda>c. [c])"
    and "map tp_date (task_completion_time_series r)
         = date_loop (today - days) today (\<lambda>c. [c])"
    by (simp_all add: get_analytics_def Let_def map_date_loop)
qed


text \<open>For any number of days, an answer of the dashboard has \<open>days + 1\<close> entries in each series.\<close>

lemma dashboard_series_length:
  assumes "get_analytics today d auth days = Ok r"
  shows "length (pomodoro_time_series r) = nat (days + 1)"
    and "length (task_completion_time_series r) = nat (days + 1)"
proof -
  have "length (map tp_date (pomodoro_time_series r)) = nat (days + 1)"
    unfolding get_analytics_series(1)[OF assms] by (simp add: length_date_loop)
  then show "length (pomodoro_time_series r) = nat (days + 1)" by simp
  have "length (map tp_date (task_completion_time_series r)) = nat (days + 1)"
    unfolding get_analytics_series(2)[OF assms] by (simp add: length_date_loop)
  then show "length (task_completion_time_series r) = nat (days + 1)" by simp
qed

text \<open>
  C3. With \<open>days = 7\<close> and a user without sessions or tasks, the dashboard answers two
  series of 8 entries, the days 193 to 200 for the end date 200, all of value 0, with
  \<open>total_pomodoros = 0\<close>, \<open>daily_average = 0\<close> and \<open>streak = 0\<close>: the window runs
  from \<open>end_date - days\<close> to \<open>end_date\<close>, both included, one day more than \<open>days\<close>.
\<close>

theorem dashboard_week_has_eight_entries:
  "map_response
     (\<lambda>r. (map tp_date (pomodoro_time_series r), map tp_value (pomodoro_time_series r),
            map tp_date (task_completion_time_series r),
            map tp_value (task_completion_time_series r),
            total_pomodoros (productivity_stats r), daily_average (productivity_stats r),
            streak (productivity_stats r)))
     (get_analytics 200 demo_db 2 7)
   = Ok ([193, 194, 195, 196, 197, 198, 199, 200], [0, 0, 0, 0, 0, 0, 0, 0],
         [193, 194, 195, 196, 197, 198, 199, 200], [0, 0, 0, 0, 0, 0, 0, 0], 0, 0, 0)"
  by (simp add: get_analytics_def get_object_def demo_db_def demo_user_def pomodoro_sessions_def
      window_tasks_def demo_session_def demo_task_def annotate_count_def order_by_def Let_def
      date_loop.simps count_on_def sum_duration_def py_round_def round_half_even_def
      streak_loop.simps has_sessions_def at_day_def is_work_def is_done_def)

subsection \<open>The streak\<close>







subsection \<open>The date range\<close>

text \<open>
  C8. The sessions of \<open>streak_db\<close> lie on the days 198 to 200. Asked on day 300 for the
  range from 195 to 201, the operation answers the aggregates of the trailing window that
  ends on day 300 (the days 293 to 300), with no Pomodoro at all: the start and the end
  of the range are used for the number of days only.
\<close>

theorem date_range_uses_trailing_window:
  "map_response
     (\<lambda>r. (map tp_date (pomodoro_time_series r), map tp_value (pomodoro_time_series r),
            total_pomodoros (productivity_stats r), daily_stats r))
     (get_analytics_by_date_range 300 streak_db 1 \<lparr>tr_start_date = 195, tr_end_date = 201\<rparr>)
   = Ok ([293, 294, 295, 296, 297, 298, 299, 300], [0, 0, 0, 0, 0, 0, 0, 0], 0, [])"
  by (simp add: get_analytics_by_date_range_def get_analytics_def get_object_def streak_db_def
      done_session_def demo_db_def demo_user_def pomodoro_sessions_def window_tasks_def
      demo_task_def annotate_count_def order_by_def Let_def date_loop.simps count_on_def
      sum_duration_def py_round_def round_half_even_def streak_loop.simps has_sessions_def
      at_day_def is_work_def is_done_def UNCATEGORIZED_def falsy_def)

subsection \<open>The order of the task list\<close>

text \<open>
  C4. The list is ordered by the priority column as text, descending: of alice's three
  tasks the one of priority medium comes first, then low, then high.
\<close>

theorem list_tasks_orders_priority_as_text:
  "map_response (map (\<lambda>t. (ts_id t, ts_priority t)))
     (list_tasks demo_dec prio_db None None None None (Some ''Bearer tokA''))
   = Ok [(11, ''medium''), (12, ''low''), (10, ''high'')]"
  by (simp add: list_tasks_def demo_auth falsy_def truthy_str_def prio_db_def demo_db_def
      prio_task_def demo_task_def order_by_def task_before_def due_less_def dt_less_def
      at_day_def task_data_def Let_def)

subsection \<open>The counter in the task update\<close>







subsection \<open>Requests without a valid token\<close>

lemma char_of_98: "char_of (98 :: nat) = CHR ''b''"
  by code_simp

lemma bearer_header_check:
  "http_bearer dec (Some (''Bearer '' @ tok)) = authenticate dec tok"
  by (simp add: http_bearer_def ascii_lower_def Let_def char_of_98)









subsection \<open>Another user's resources\<close>

lemma get_object_none:
  "(\<And>r. r \<in> set rows \<Longrightarrow> \<not> P r) \<Longrightarrow> get_object P rows = None"
  by (simp add: get_object_def find_None_iff)

text \<open>
  A caller with a valid token who names a row of another user by its id: the task,
  category and tag routes answer 404, the session routes 500, and the store is unchanged.
\<close>

lemma foreign_task:
  assumes "http_bearer dec a = Some uid" "get_user_id_from_token dec a = Some uid" "uid \<noteq> 0"
    and "\<forall>t \<in> set (tasks d). t_id t = i \<longrightarrow> t_user t \<noteq> uid"
  shows "api dec now d (GetTask i) a = (NotFound, d)"
    and "api dec now d (UpdateTask i data) a = (NotFound, d)"
    and "api dec now d (DeleteTask i) a = (NotFound, d)"
    and "api dec now d (CompleteTask i) a = (NotFound, d)"
    and "api dec now d (GetTaskAnalytics i) a = (NotFound, d)"
proof -
  have "get_object (\<lambda>t. t_id t = i \<and> t_user t = uid) (tasks d) = None"
    using assms(4) by (intro get_object_none) auto
  with assms(1-3) show "api dec now d (GetTask i) a = (NotFound, d)"
    and "api dec now d (UpdateTask i data) a = (NotFound, d)"
    and "api dec now d (DeleteTask i) a = (NotFound, d)"
    and "api dec now d (CompleteTask i) a = (NotFound, d)"
    and "api dec now d (GetTaskAnalytics i) a = (NotFound, d)"
    by (simp_all add: protected_def answer_def falsy_def get_task_def update_task_def
          delete_task_def complete_task_def get_task_analytics_def)
qed

lemma foreign_category:
  assumes "http_bearer dec a = Some uid" "get_user_id_from_token dec a = Some uid" "uid \<noteq> 0"
    and "\<forall>c \<in> set (categories d). c_id c = i \<longrightarrow> c_user c \<noteq> uid"
  shows "api dec now d (UpdateCategory i data) a = (NotFound, d)"
    and "api dec now d (DeleteCategory i) a = (NotFound, d)"
proof -
  have "get_object (\<lambda>c. c_id c = i \<and> c_user c = uid) (categories d) = None"
    using assms(4) by (intro get_object_none) auto
  with assms(1-3) show "api dec now d (UpdateCategory i data) a = (NotFound, d)"
    and "api dec now d (DeleteCategory i) a = (NotFound, d)"
    by (simp_all add: protected_def answer_def falsy_def update_category_def
          delete_category_def)
qed

lemma foreign_tag:
  assumes "http_bearer dec a = Some uid" "get_user_id_from_token dec a = Some uid" "uid \<noteq> 0"
    and "\<forall>g \<in> set (tags d). g_id g = i \<longrightarrow> g_user g \<noteq> uid"
  shows "api dec now d (UpdateTag i data) a = (NotFound, d)"
    and "api dec now d (DeleteTag i) a = (NotFound, d)"
proof -
  have "get_object (\<lambda>g. g_id g = i \<and> g_user g = uid) (tags d) = None"
    using assms(4) by (intro get_object_none) auto
  with assms(1-3) show "api dec now d (UpdateTag i data) a = (NotFound, d)"
    and "api dec now d (DeleteTag i) a = (NotFound, d)"
    by (simp_all add: protected_def answer_def falsy_def update_tag_def delete_tag_def)
qed

lemma foreign_session:
  assumes "http_bearer dec a = Some uid" "get_user_id_from_token dec a = Some uid" "uid \<noteq> 0"
    and "\<forall>s \<in> set (sessions d). s_id s = i \<longrightarrow> s_user s \<noteq> uid"
  shows "api dec now d (CompleteSession i data) a = (ServerError, d)"
    and "api dec now d (DeleteSession i) a = (ServerError, d)"
proof -
  have "get_object (\<lambda>s. s_id s = i \<and> s_user s = uid) (sessions d) = None"
    using assms(4) by (intro get_object_none) auto
  with assms(1-3) show "api dec now d (CompleteSession i data) a = (ServerError, d)"
    and "api dec now d (DeleteSession i) a = (ServerError, d)"
    by (simp_all add: protected_def answer_def falsy_def complete_session_def
          delete_session_def)
qed

lemma demo_auth_bob: "get_user_id_from_token demo_dec (Some ''Bearer tokB'') = Some 2"
  by code_simp

lemma demo_check_bob: "http_bearer demo_dec (Some ''Bearer tokB'') = Some 2"
  using bearer_header_check[of demo_dec "''tokB''"]
  by (simp add: authenticate_def demo_dec_def)

text \<open>
  C5. Bob, with his own valid token, asks for alice's task 10 and is answered 404; he
  completes and deletes alice's session 100 and is answered 500 both times, since the
  \<open>Http404\<close> of \<open>get_object_or_404\<close> is caught by \<open>except Exception\<close> in the handlers
  of the Pomodoro router. In each case the store is unchanged.
\<close>

theorem cross_user_session_is_server_error:
  "api demo_dec (at_day 101) demo_db (GetTask 10) (Some ''Bearer tokB'') = (NotFound, demo_db)
   \<and> api demo_dec (at_day 101) demo_db (CompleteSession 100 (done_at True)) (Some ''Bearer tokB'')
       = (ServerError, demo_db)
   \<and> api demo_dec (at_day 101) demo_db (DeleteSession 100) (Some ''Bearer tokB'')
       = (ServerError, demo_db)"
  by (simp add: protected_def demo_check_bob demo_auth_bob answer_def get_task_def
      complete_session_def delete_session_def falsy_def get_object_def demo_db_def
      demo_task_def demo_session_def Let_def)

end
